theory Spec2Isabelle
  imports Main "HOL-Library.Word"
begin

unbundle bit_operations_syntax

section \<open>The soft MMU of riscv-soft-mmu.h, instantiated as mmu_rv64\<close>

text \<open>
  The embedding follows \<^verbatim>\<open>struct mmu\<close> for \<^verbatim>\<open>UX = u64\<close> (the instance
  \<^verbatim>\<open>mmu_rv64\<close>): guest virtual addresses, guest physical addresses, host addresses
  and PTE fields are 64-bit words, and all arithmetic wraps at 64 bits.
  A \<^verbatim>\<open>longjmp(proc.env, cause)\<close> is the result \<open>Longjmp cause\<close>; a normal return is
  \<open>Return v\<close>. Objects passed by reference (\<^verbatim>\<open>proc\<close>, the MMU itself, \<^verbatim>\<open>val\<close>,
  \<^verbatim>\<open>tlb\<close>, \<^verbatim>\<open>tlb_ent\<close>) are passed in and returned updated.
\<close>

type_synonym addr_t = "64 word"
type_synonym UX = "64 word"
type_synonym inst_t = "64 word"

text \<open>
  Modelled from the spec: the constants of the headers that are not among the sources.
  \<open>illegal_address\<close> is the all-ones address; a page is 4 KiB, so \<open>page_shift\<close> is 12 and
  \<^verbatim>\<open>va & ~page_mask\<close> is \<^verbatim>\<open>va & 4095\<close>.
\<close>

definition illegal_address :: addr_t where
  "illegal_address = - 1"

definition page_shift :: nat where
  "page_shift = 12"

definition page_mask :: "64 word" where
  "page_mask = NOT 4095"

datatype riscv_cause =
    riscv_cause_misaligned_fetch
  | riscv_cause_fault_fetch
  | riscv_cause_misaligned_load
  | riscv_cause_fault_load
  | riscv_cause_misaligned_store
  | riscv_cause_fault_store

datatype 'a result = Longjmp riscv_cause | Return 'a

datatype riscv_mode = riscv_mode_U | riscv_mode_S | riscv_mode_H | riscv_mode_M

text \<open>
  The values of \<^verbatim>\<open>mstatus.vm\<close> the switch of \<^verbatim>\<open>translate_addr\<close> has a case for, and
  \<open>riscv_vm_other\<close> for every value it has none for (the switch has no default).
\<close>

datatype riscv_vm =
    riscv_vm_mbare
  | riscv_vm_sv32
  | riscv_vm_sv39
  | riscv_vm_sv48
  | riscv_vm_other

text \<open>The processor fields the MMU reads and writes.\<close>

record proc =
  mode :: riscv_mode
  mstatus_mprv :: bool
  mstatus_vm :: riscv_vm
  pdid :: UX
  sptbr :: UX
  badaddr :: UX

subsection \<open>Physical memory\<close>

text \<open>
  Modelled from the spec: the memory device \<^verbatim>\<open>user_memory\<close> is not among the sources.
  It is a collection of segments, each a guest-physical range backed by a host region;
  \<open>mpa_to_uva\<close> gives the host address of a guest-physical address, or \<open>illegal_address\<close>
  when no segment covers it. The host's own address space, which the MMU reads and
  writes through the pointers it casts, is the byte map \<open>host\<close>; a value of several bytes
  lies there in the host's (little-endian) order.
\<close>

record segment =
  seg_mpa :: addr_t
  seg_len :: addr_t
  seg_uva :: addr_t

record memory_type =
  segments :: "segment list"
  host :: "addr_t \<Rightarrow> 8 word"

fun seg_lookup :: "segment list \<Rightarrow> addr_t \<Rightarrow> addr_t" where
  "seg_lookup [] pa = illegal_address"
| "seg_lookup (s # ss) pa =
     (if seg_mpa s \<le> pa \<and> pa - seg_mpa s < seg_len s
      then seg_uva s + (pa - seg_mpa s)
      else seg_lookup ss pa)"

definition mpa_to_uva :: "memory_type \<Rightarrow> addr_t \<Rightarrow> addr_t" where
  "mpa_to_uva m pa = seg_lookup (segments m) pa"

fun host_read :: "(addr_t \<Rightarrow> 8 word) \<Rightarrow> addr_t \<Rightarrow> nat \<Rightarrow> 64 word" where
  "host_read h a 0 = 0"
| "host_read h a (Suc n) = ucast (h a) OR push_bit 8 (host_read h (a + 1) n)"

fun host_write :: "(addr_t \<Rightarrow> 8 word) \<Rightarrow> addr_t \<Rightarrow> nat \<Rightarrow> 64 word \<Rightarrow> (addr_t \<Rightarrow> 8 word)" where
  "host_write h a 0 v = h"
| "host_write h a (Suc n) v = host_write (h(a := ucast v)) (a + 1) n (drop_bit 8 v)"

subsection \<open>PMA table\<close>

text \<open>
  Modelled from the spec: \<^verbatim>\<open>pma_table\<close> is not among the sources. It is an ordered table
  of entries (base, length, attributes); a lookup gives the first entry whose range holds
  the physical address, or nothing (the unconstrained default).
\<close>

record pma_entry =
  pma_base :: addr_t
  pma_length :: addr_t
  pma_readable :: bool
  pma_writable :: bool
  pma_executable :: bool

type_synonym pma_type = "pma_entry list"

fun pma_lookup :: "pma_type \<Rightarrow> addr_t \<Rightarrow> pma_entry option" where
  "pma_lookup [] pa = None"
| "pma_lookup (e # es) pa =
     (if pma_base e \<le> pa \<and> pa - pma_base e < pma_length e then Some e
      else pma_lookup es pa)"

subsection \<open>TLB\<close>

text \<open>
  Modelled from the spec: the TLB type \<^verbatim>\<open>tagged_tlb_rv64<128>\<close> is not among the sources.
  It is direct mapped with 128 slots, indexed by the virtual page number modulo the
  capacity. \<open>lookup\<close> matches only when the stored pdid, root ppn tag and vpn all equal the
  query; \<open>insert\<close> writes the indexed slot unconditionally and returns the entry.
  The type's constant \<^verbatim>\<open>ppn_bits\<close> is the field \<open>ppn_bits\<close>: its value is a parameter of
  the model.
\<close>

record tlb_entry_t =
  ent_pdid :: UX
  ent_asid :: UX
  ent_vpn :: UX
  ent_pteb :: UX
  ent_ppn :: UX

record tlb_type =
  ppn_bits :: nat
  ent :: "nat \<Rightarrow> tlb_entry_t option"

definition tlb_index :: "UX \<Rightarrow> nat" where
  "tlb_index va = unat (drop_bit page_shift va) mod 128"

definition lookup :: "tlb_type \<Rightarrow> UX \<Rightarrow> UX \<Rightarrow> UX \<Rightarrow> tlb_entry_t option" where
  "lookup tlb pd asid va =
     (case ent tlb (tlb_index va) of
        None \<Rightarrow> None
      | Some e \<Rightarrow>
          if ent_pdid e = pd \<and> ent_asid e = asid \<and> ent_vpn e = drop_bit page_shift va
          then Some e else None)"

definition insert_tlb ::
  "tlb_type \<Rightarrow> UX \<Rightarrow> UX \<Rightarrow> UX \<Rightarrow> UX \<Rightarrow> UX \<Rightarrow> tlb_entry_t \<times> tlb_type" where
  "insert_tlb tlb pd asid va pteb pn =
     (let e = \<lparr>ent_pdid = pd, ent_asid = asid, ent_vpn = drop_bit page_shift va,
                ent_pteb = pteb, ent_ppn = pn\<rparr>
      in (e, tlb\<lparr>ent := (ent tlb)(tlb_index va := Some e)\<rparr>))"

subsection \<open>Paging schemes and page-table entries\<close>

text \<open>
  Modelled from the spec: the paging-scheme types \<^verbatim>\<open>sv32\<close>, \<^verbatim>\<open>sv39\<close>, \<^verbatim>\<open>sv48\<close> and
  their PTE types are not among the sources. A scheme gives \<^verbatim>\<open>levels\<close>, \<^verbatim>\<open>bits\<close> and
  the size of its PTE type (sv32: 2, 10, 4; sv39: 3, 9, 8; sv48: 4, 9, 8). A PTE word
  holds the flags V, R, W, X, U, G, A, D from bit 0 upwards in its low ten bits
  (\<^verbatim>\<open>pte.val.flags\<close>) and the physical page number above them (\<^verbatim>\<open>pte.val.ppn\<close>); the
  width of the ppn field is the scheme's \<open>ptm_ppn_bits\<close>. Both fields are read as
  unsigned 64-bit values, which is what a field of a 64-bit PTE word is in the source's
  expressions; how \<^verbatim>\<open>pte.val.ppn << page_shift\<close> is evaluated on the narrower fields of an
  sv32 PTE depends on the absent type, so the results that rest on the value of a leaf
  address are stated for sv39 and sv48.
\<close>

record ptm =
  ptm_levels :: nat
  ptm_bits :: nat
  ptm_pte_size :: nat
  ptm_ppn_bits :: nat

definition sv32 :: ptm where
  "sv32 = \<lparr>ptm_levels = 2, ptm_bits = 10, ptm_pte_size = 4, ptm_ppn_bits = 22\<rparr>"

definition sv39 :: ptm where
  "sv39 = \<lparr>ptm_levels = 3, ptm_bits = 9, ptm_pte_size = 8, ptm_ppn_bits = 38\<rparr>"

definition sv48 :: ptm where
  "sv48 = \<lparr>ptm_levels = 4, ptm_bits = 9, ptm_pte_size = 8, ptm_ppn_bits = 38\<rparr>"

record pte_type =
  pte_flags :: "64 word"
  pte_ppn :: "64 word"

definition pte_shift_V :: nat where "pte_shift_V = 0"
definition pte_shift_R :: nat where "pte_shift_R = 1"
definition pte_shift_W :: nat where "pte_shift_W = 2"
definition pte_shift_X :: nat where "pte_shift_X = 3"

definition pte_flag_V :: "64 word" where "pte_flag_V = push_bit pte_shift_V 1"
definition pte_flag_R :: "64 word" where "pte_flag_R = push_bit pte_shift_R 1"
definition pte_flag_W :: "64 word" where "pte_flag_W = push_bit pte_shift_W 1"
definition pte_flag_X :: "64 word" where "pte_flag_X = push_bit pte_shift_X 1"

text \<open>\<^verbatim>\<open>pte = *(pte_type* )pte_uva\<close>: the PTE word at a host address, split into its fields.\<close>

definition read_pte :: "ptm \<Rightarrow> memory_type \<Rightarrow> addr_t \<Rightarrow> pte_type" where
  "read_pte pt m uva =
     (let w = host_read (host m) uva (ptm_pte_size pt)
      in \<lparr>pte_flags = w AND 1023,
          pte_ppn = drop_bit 10 w AND (push_bit (ptm_ppn_bits pt) 1 - 1)\<rparr>)"

subsection \<open>The MMU\<close>

record mmu =
  l1_dtlb :: tlb_type
  l1_itlb :: tlb_type
  pma :: pma_type
  mem :: memory_type

text \<open>The integer types \<^verbatim>\<open>T\<close> of the typed accesses, and \<^verbatim>\<open>sizeof(T)\<close>.\<close>

datatype ty = U8 | U16 | U32 | U64

fun sizeof :: "ty \<Rightarrow> nat" where
  "sizeof U8 = 1"
| "sizeof U16 = 2"
| "sizeof U32 = 4"
| "sizeof U64 = 8"

definition misaligned :: "ty \<Rightarrow> UX \<Rightarrow> bool" where
  "misaligned T va = (va AND (of_nat (sizeof T) - 1) \<noteq> 0)"

definition illegal :: "addr_t \<Rightarrow> bool" where
  "illegal pa = (pa = illegal_address)"

text \<open>
  The local variables of one iteration of the walker's loop, at \<open>level\<close> and with the
  current table's \<open>ppn\<close>:
  \<^verbatim>\<open>shift = PTM::bits * level + page_shift\<close>,
  \<^verbatim>\<open>vpn = (va >> shift) & ((1ULL << PTM::bits) - 1)\<close>,
  \<^verbatim>\<open>pte_mpa = ppn + vpn * sizeof(pte_type)\<close>.
\<close>

definition walk_shift :: "ptm \<Rightarrow> nat \<Rightarrow> nat" where
  "walk_shift pt level = ptm_bits pt * level + page_shift"

definition walk_vpn :: "ptm \<Rightarrow> UX \<Rightarrow> nat \<Rightarrow> UX" where
  "walk_vpn pt va level =
     drop_bit (walk_shift pt level) va AND (push_bit (ptm_bits pt) 1 - 1)"

definition walk_pte_mpa :: "ptm \<Rightarrow> UX \<Rightarrow> nat \<Rightarrow> UX \<Rightarrow> UX" where
  "walk_pte_mpa pt va level pn = pn + walk_vpn pt va level * of_nat (ptm_pte_size pt)"

text \<open>
  The fault test of the walker:
  \<^verbatim>\<open>((~flags >> pte_shift_V) | ((~flags >> pte_shift_R) & (flags >> pte_shift_W))) & 1\<close>.
\<close>

definition pte_fault :: "64 word \<Rightarrow> bool" where
  "pte_fault fl =
     ((drop_bit pte_shift_V (NOT fl) OR
       (drop_bit pte_shift_R (NOT fl) AND drop_bit pte_shift_W fl)) AND 1 \<noteq> 0)"

definition zero_pte :: pte_type where
  "zero_pte = \<lparr>pte_flags = 0, pte_ppn = 0\<rparr>"

text \<open>
  The loop of \<^verbatim>\<open>walk_page_table\<close>, \<^verbatim>\<open>for (level = PTM::levels - 1; level >= 0; level--)\<close>:
  the third argument is \<open>level + 1\<close>, so 0 is the loop's exit to the label \<^verbatim>\<open>out\<close>.
  The result is the returned address and the PTE left in the caller's holder; on the
  failing paths the holder is read by the debug message only, and the model leaves
  \<open>zero_pte\<close> there when no PTE could be read.
\<close>

fun walk_levels :: "ptm \<Rightarrow> memory_type \<Rightarrow> UX \<Rightarrow> nat \<Rightarrow> UX \<Rightarrow> addr_t \<times> pte_type" where
  "walk_levels pt m va 0 pn = (illegal_address, zero_pte)"
| "walk_levels pt m va (Suc level) pn =
     (let pte_uva = mpa_to_uva m (walk_pte_mpa pt va level pn) in
      if pte_uva = illegal_address then (illegal_address, zero_pte)
      else
        let pte = read_pte pt m pte_uva in
        if pte_fault (pte_flags pte) then (illegal_address, pte)
        else if pte_flags pte AND (pte_flag_R OR pte_flag_X) \<noteq> 0
        then (push_bit page_shift (pte_ppn pte) +
                (va AND (push_bit (walk_shift pt level) 1 - 1)), pte)
        else walk_levels pt m va level (pte_ppn pte))"

definition walk_page_table ::
  "ptm \<Rightarrow> proc \<Rightarrow> memory_type \<Rightarrow> tlb_type \<Rightarrow> UX \<Rightarrow> addr_t \<times> pte_type" where
  "walk_page_table pt p m tlb va =
     walk_levels pt m va (ptm_levels pt) (sptbr p AND (push_bit (ppn_bits tlb) 1 - 1))"

definition page_translate_addr_tlb_miss ::
  "ptm \<Rightarrow> proc \<Rightarrow> memory_type \<Rightarrow> tlb_type \<Rightarrow> UX \<Rightarrow> addr_t \<times> tlb_entry_t option \<times> tlb_type" where
  "page_translate_addr_tlb_miss pt p m tlb va =
     (let (pa, pte) = walk_page_table pt p m tlb va in
      if pa \<noteq> illegal_address
      then
        (let (e, tlb') = insert_tlb tlb (pdid p) (drop_bit (ppn_bits tlb) (sptbr p))
                           va (pte_flags pte) (pte_ppn pte)
         in (pa, Some e, tlb'))
      else (pa, None, tlb))"

definition page_translate_addr ::
  "ptm \<Rightarrow> proc \<Rightarrow> memory_type \<Rightarrow> tlb_type \<Rightarrow> UX \<Rightarrow> addr_t \<times> tlb_entry_t option \<times> tlb_type" where
  "page_translate_addr pt p m tlb va =
     (case lookup tlb (pdid p) (drop_bit (ppn_bits tlb) (sptbr p)) va of
        Some e \<Rightarrow> (push_bit page_shift (ent_ppn e) OR (va AND NOT page_mask), Some e, tlb)
      | None \<Rightarrow> page_translate_addr_tlb_miss pt p m tlb va)"

text \<open>
  The call \<^verbatim>\<open>page_translate_addr<P,PTM>(proc, va, inst_fetch ? l1_itlb : l1_dtlb, tlb_ent)\<close>:
  the chosen TLB is passed by reference, so its update is written back to the same field.
\<close>

definition translate_paged ::
  "ptm \<Rightarrow> bool \<Rightarrow> mmu \<Rightarrow> proc \<Rightarrow> UX \<Rightarrow> addr_t \<times> tlb_entry_t option \<times> mmu" where
  "translate_paged pt inst_fetch mm p va =
     (if inst_fetch
      then (let (pa, e, tlb') = page_translate_addr pt p (mem mm) (l1_itlb mm) va
            in (pa, e, mm\<lparr>l1_itlb := tlb'\<rparr>))
      else (let (pa, e, tlb') = page_translate_addr pt p (mem mm) (l1_dtlb mm) va
            in (pa, e, mm\<lparr>l1_dtlb := tlb'\<rparr>)))"

definition translate_addr ::
  "bool \<Rightarrow> mmu \<Rightarrow> proc \<Rightarrow> UX \<Rightarrow> addr_t \<times> tlb_entry_t option \<times> mmu" where
  "translate_addr inst_fetch mm p va =
     (if mode p = riscv_mode_M \<and> \<not> mstatus_mprv p then (va, None, mm)
      else
        (case mstatus_vm p of
           riscv_vm_mbare \<Rightarrow> (va, None, mm)
         | riscv_vm_sv32 \<Rightarrow> translate_paged sv32 inst_fetch mm p va
         | riscv_vm_sv39 \<Rightarrow> translate_paged sv39 inst_fetch mm p va
         | riscv_vm_sv48 \<Rightarrow> translate_paged sv48 inst_fetch mm p va
         | riscv_vm_other \<Rightarrow> (illegal_address, None, mm)))"

text \<open>
  Modelled from the spec: \<^verbatim>\<open>riscv::inst_fetch(uva, pc_offset)\<close> is not among the sources.
  It reads one instruction of 16 or 32 bits at a host address and gives its bits with the
  increment of the program counter, 2 for a compressed instruction and 4 for a full one
  (an instruction is full when its two low bits are both set).
\<close>

definition riscv_inst_fetch :: "(addr_t \<Rightarrow> 8 word) \<Rightarrow> addr_t \<Rightarrow> inst_t \<times> addr_t" where
  "riscv_inst_fetch h uva =
     (let lo = host_read h uva 2 in
      if lo AND 3 \<noteq> 3 then (lo, 2)
      else (lo OR push_bit 16 (host_read h (uva + 2) 2), 4))"

text \<open>
  \<^verbatim>\<open>inst_fetch\<close> calls \<^verbatim>\<open>translate_addr<P,false>\<close>: the template argument
  \<^verbatim>\<open>inst_fetch\<close> of the translation is \<^verbatim>\<open>false\<close> in the source.
\<close>

definition inst_fetch :: "mmu \<Rightarrow> proc \<Rightarrow> UX \<Rightarrow> proc \<times> mmu \<times> (inst_t \<times> addr_t) result" where
  "inst_fetch mm p pc =
     (if misaligned U16 pc
      then (p\<lparr>badaddr := pc\<rparr>, mm, Longjmp riscv_cause_misaligned_fetch)
      else
        (let (mpa, tlb_ent, mm') = translate_addr False mm p pc;
             uva = (if illegal mpa then mpa else mpa_to_uva (mem mm') mpa)
         in if illegal uva
            then (p\<lparr>badaddr := pc\<rparr>, mm', Longjmp riscv_cause_fault_fetch)
            else (p, mm', Return (riscv_inst_fetch (host (mem mm')) uva))))"

text \<open>
  \<^verbatim>\<open>load<P,T>(proc, va, val)\<close>: \<open>val\<close> is the content of the caller's destination before
  the call, and the third component of the result its content after.
\<close>

definition load :: "ty \<Rightarrow> mmu \<Rightarrow> proc \<Rightarrow> UX \<Rightarrow> 64 word \<Rightarrow> proc \<times> mmu \<times> 64 word \<times> unit result" where
  "load T mm p va val =
     (if misaligned T va
      then (p\<lparr>badaddr := va\<rparr>, mm, val, Longjmp riscv_cause_misaligned_load)
      else
        (let (mpa, tlb_ent, mm') = translate_addr False mm p va;
             uva = (if illegal mpa then mpa else mpa_to_uva (mem mm') mpa)
         in if illegal uva
            then (p\<lparr>badaddr := va\<rparr>, mm', val, Longjmp riscv_cause_fault_load)
            else (p, mm', host_read (host (mem mm')) uva (sizeof T), Return ())))"

definition store :: "ty \<Rightarrow> mmu \<Rightarrow> proc \<Rightarrow> UX \<Rightarrow> 64 word \<Rightarrow> proc \<times> mmu \<times> unit result" where
  "store T mm p va val =
     (if misaligned T va
      then (p\<lparr>badaddr := va\<rparr>, mm, Longjmp riscv_cause_misaligned_store)
      else
        (let (mpa, tlb_ent, mm') = translate_addr False mm p va;
             uva = (if illegal mpa then mpa else mpa_to_uva (mem mm') mpa)
         in if illegal uva
            then (p\<lparr>badaddr := va\<rparr>, mm', Longjmp riscv_cause_fault_store)
            else (p,
                  mm'\<lparr>mem := (mem mm')\<lparr>host := host_write (host (mem mm')) uva (sizeof T) val\<rparr>\<rparr>,
                  Return ())))"

section \<open>Image loading in rv-sim.cc\<close>

text \<open>
  Modelled from the spec: \<^verbatim>\<open>elf.h\<close> is not among the sources. The program header has the
  fields of \<^verbatim>\<open>Elf64_Phdr\<close>, and the constants have the values the ELF format fixes:
  segment types \<^verbatim>\<open>PT_LOAD\<close> = 1, \<^verbatim>\<open>PT_DYNAMIC\<close> = 2, \<^verbatim>\<open>PT_NOTE\<close> = 4 and
  \<^verbatim>\<open>PT_GNU_STACK\<close> = 0x6474e551; segment flags \<^verbatim>\<open>PF_X\<close> = 1, \<^verbatim>\<open>PF_W\<close> = 2, \<^verbatim>\<open>PF_R\<close> = 4.
\<close>

record Elf64_Phdr =
  p_type :: "32 word"
  p_flags :: "32 word"
  p_offset :: "64 word"
  p_vaddr :: "64 word"
  p_paddr :: "64 word"
  p_filesz :: "64 word"
  p_memsz :: "64 word"
  p_align :: "64 word"

definition PT_LOAD :: "32 word" where "PT_LOAD = 1"
definition PT_DYNAMIC :: "32 word" where "PT_DYNAMIC = 2"
definition PT_NOTE :: "32 word" where "PT_NOTE = 4"
definition PT_GNU_STACK :: "32 word" where "PT_GNU_STACK = 0x6474e551"

definition PF_X :: "32 word" where "PF_X = 1"
definition PF_W :: "32 word" where "PF_W = 2"
definition PF_R :: "32 word" where "PF_R = 4"

text \<open>
  The loop of \<^verbatim>\<open>start_proxy\<close> over \<^verbatim>\<open>elf.phdrs\<close>: the result lists, in order, the program
  headers that are passed to \<^verbatim>\<open>proc.map_load_segment_user\<close>. The condition of the source
  is \<^verbatim>\<open>phdr.p_flags & (PT_LOAD | PT_DYNAMIC)\<close>.
\<close>

fun start_proxy_mapped :: "Elf64_Phdr list \<Rightarrow> Elf64_Phdr list" where
  "start_proxy_mapped [] = []"
| "start_proxy_mapped (phdr # phdrs) =
     (if p_flags phdr AND (PT_LOAD OR PT_DYNAMIC) \<noteq> 0
      then phdr # start_proxy_mapped phdrs
      else start_proxy_mapped phdrs)"

section \<open>Concrete configurations\<close>

definition empty_tlb :: tlb_type where
  "empty_tlb = \<lparr>ppn_bits = 38, ent = (\<lambda>i. None)\<rparr>"

text \<open>
  A megapage under sv39. The root table is the page at physical address 0
  (\<open>sptbr = 0\<close>); its entry 1, at physical address 8, is an interior PTE (V only) whose
  ppn is 0, so the level-1 table is the same page; its entry 0, at physical address 0, is
  a leaf PTE with V, R and X set and ppn 0x100000. Virtual addresses 0x40000000 to
  0x40200000 are thereby mapped to physical address 0x100000000. Two megabytes of
  memory lie at that physical address: a compressed instruction (bits 0x0001) at
  0x100001000 and a full one (bits 0x00000013) at 0x100000000.
\<close>

definition megapage_mem :: memory_type where
  "megapage_mem =
     \<lparr>segments =
        [\<lparr>seg_mpa = 0, seg_len = 0x1000, seg_uva = 0x10000\<rparr>,
         \<lparr>seg_mpa = 0x100000000, seg_len = 0x200000, seg_uva = 0x40000000\<rparr>],
      host = (\<lambda>a. 0)(0x10000 := 0x0B, 0x10003 := 0x40, 0x10008 := 0x01,
                      0x40001000 := 0x01, 0x40000000 := 0x13)\<rparr>"

definition megapage_mmu :: mmu where
  "megapage_mmu = \<lparr>l1_dtlb = empty_tlb, l1_itlb = empty_tlb, pma = [], mem = megapage_mem\<rparr>"

definition megapage_proc :: proc where
  "megapage_proc =
     \<lparr>mode = riscv_mode_S, mstatus_mprv = False, mstatus_vm = riscv_vm_sv39,
      pdid = 0, sptbr = 0, badaddr = 0\<rparr>"

text \<open>
  A root table at physical address 0x80000000 under sv39, \<open>sptbr = 0x80000\<close> being its
  physical page number. Entry 0 of the table is a leaf PTE with V, R and W set and
  ppn 1 (the word 0x407), which maps virtual address 0x1000 to physical address 0x2000.
  Memory lies at 0x80000000 (the table) and at 0x2000 (the mapped page).
\<close>

definition root_mem :: memory_type where
  "root_mem =
     \<lparr>segments =
        [\<lparr>seg_mpa = 0x80000000, seg_len = 0x1000, seg_uva = 0x10000\<rparr>,
         \<lparr>seg_mpa = 0x2000, seg_len = 0x1000, seg_uva = 0x20000\<rparr>],
      host = (\<lambda>a. 0)(0x10000 := 0x07, 0x10001 := 0x04, 0x20000 := 0x5A)\<rparr>"

definition root_mmu :: mmu where
  "root_mmu = \<lparr>l1_dtlb = empty_tlb, l1_itlb = empty_tlb, pma = [], mem = root_mem\<rparr>"

definition root_proc :: proc where
  "root_proc =
     \<lparr>mode = riscv_mode_S, mstatus_mprv = False, mstatus_vm = riscv_vm_sv39,
      pdid = 0, sptbr = 0x80000, badaddr = 0\<rparr>"

text \<open>
  Machine mode without \<open>mprv\<close>: one page of memory at physical address 0x1000, and a PMA
  table whose only entry covers that page and marks it readable but not writable.
\<close>

definition readonly_pma :: pma_type where
  "readonly_pma =
     [\<lparr>pma_base = 0x1000, pma_length = 0x1000, pma_readable = True,
       pma_writable = False, pma_executable = False\<rparr>]"

definition bare_mem :: memory_type where
  "bare_mem =
     \<lparr>segments = [\<lparr>seg_mpa = 0x1000, seg_len = 0x1000, seg_uva = 0x10000\<rparr>],
      host = (\<lambda>a. 0)\<rparr>"

definition bare_mmu :: mmu where
  "bare_mmu = \<lparr>l1_dtlb = empty_tlb, l1_itlb = empty_tlb, pma = readonly_pma, mem = bare_mem\<rparr>"

definition bare_proc :: proc where
  "bare_proc =
     \<lparr>mode = riscv_mode_M, mstatus_mprv = False, mstatus_vm = riscv_vm_mbare,
      pdid = 0, sptbr = 0, badaddr = 0\<rparr>"

text \<open>
  The TLB entry the megapage walk inserts for virtual address 0x40001000, and the data TLB
  that holds it in slot 1.
\<close>

definition megapage_ent :: tlb_entry_t where
  "megapage_ent =
     \<lparr>ent_pdid = 0, ent_asid = 0, ent_vpn = 0x40001, ent_pteb = 0xB, ent_ppn = 0x100000\<rparr>"

definition megapage_tlb :: tlb_type where
  "megapage_tlb = empty_tlb\<lparr>ent := (ent empty_tlb)(1 := Some megapage_ent)\<rparr>"

text \<open>
  One page table page at physical address 0 whose entry 0 is the word 0x0A: R and X are
  set, V is clear.
\<close>

definition invalid_leaf_mem :: memory_type where
  "invalid_leaf_mem =
     \<lparr>segments = [\<lparr>seg_mpa = 0, seg_len = 0x1000, seg_uva = 0x10000\<rparr>],
      host = (\<lambda>a. 0)(0x10000 := 0x0A)\<rparr>"

text \<open>
  Two program headers: a read-only \<^verbatim>\<open>PT_LOAD\<close> segment (flags \<^verbatim>\<open>PF_R\<close>), and a
  \<^verbatim>\<open>PT_GNU_STACK\<close> header with flags \<^verbatim>\<open>PF_R | PF_W\<close>.
\<close>

definition rodata_phdr :: Elf64_Phdr where
  "rodata_phdr =
     \<lparr>p_type = PT_LOAD, p_flags = PF_R, p_offset = 0x2000, p_vaddr = 0x12000,
      p_paddr = 0x12000, p_filesz = 0x400, p_memsz = 0x400, p_align = 0x1000\<rparr>"

definition gnu_stack_phdr :: Elf64_Phdr where
  "gnu_stack_phdr =
     \<lparr>p_type = PT_GNU_STACK, p_flags = PF_R OR PF_W, p_offset = 0, p_vaddr = 0,
      p_paddr = 0, p_filesz = 0, p_memsz = 0, p_align = 0x10\<rparr>"

text \<open>
  Scenario S5 under sv39, with the processor of the megapage configuration (mode S,
  \<open>sptbr = 0\<close>): one page table page at physical address 0 serves as the table of every
  level. Its entry 0 (physical address 0) and its entry 2 (physical address 16) are the
  word 0x01: V is set, R, W and X are clear. For virtual address 0x2000 the walk reads
  entry 0 at levels 2 and 1 and entry 2 at level 0.
\<close>

definition pointer_mem :: memory_type where
  "pointer_mem =
     \<lparr>segments = [\<lparr>seg_mpa = 0, seg_len = 0x1000, seg_uva = 0x10000\<rparr>],
      host = (\<lambda>a. 0)(0x10000 := 0x01, 0x10010 := 0x01)\<rparr>"

definition pointer_mmu :: mmu where
  "pointer_mmu = \<lparr>l1_dtlb = empty_tlb, l1_itlb = empty_tlb, pma = [], mem = pointer_mem\<rparr>"

section \<open>The three access primitives, path by path\<close>

lemma load_cases:
  "load T mm p va val =
     (if misaligned T va then (p\<lparr>badaddr := va\<rparr>, mm, val, Longjmp riscv_cause_misaligned_load)
      else if illegal (fst (translate_addr False mm p va)) \<or>
              illegal (mpa_to_uva (mem (snd (snd (translate_addr False mm p va))))
                         (fst (translate_addr False mm p va)))
      then (p\<lparr>badaddr := va\<rparr>, snd (snd (translate_addr False mm p va)), val,
            Longjmp riscv_cause_fault_load)
      else (p, snd (snd (translate_addr False mm p va)),
            host_read (host (mem (snd (snd (translate_addr False mm p va)))))
              (mpa_to_uva (mem (snd (snd (translate_addr False mm p va))))
                 (fst (translate_addr False mm p va))) (sizeof T),
            Return ()))"
  by (simp add: load_def Let_def split: prod.splits)

lemma store_cases:
  "store T mm p va val =
     (if misaligned T va then (p\<lparr>badaddr := va\<rparr>, mm, Longjmp riscv_cause_misaligned_store)
      else if illegal (fst (translate_addr False mm p va)) \<or>
              illegal (mpa_to_uva (mem (snd (snd (translate_addr False mm p va))))
                         (fst (translate_addr False mm p va)))
      then (p\<lparr>badaddr := va\<rparr>, snd (snd (translate_addr False mm p va)),
            Longjmp riscv_cause_fault_store)
      else (p,
            (snd (snd (translate_addr False mm p va)))
              \<lparr>mem := (mem (snd (snd (translate_addr False mm p va))))
                 \<lparr>host := host_write (host (mem (snd (snd (translate_addr False mm p va)))))
                    (mpa_to_uva (mem (snd (snd (translate_addr False mm p va))))
                       (fst (translate_addr False mm p va))) (sizeof T) val\<rparr>\<rparr>,
            Return ()))"
  by (simp add: store_def Let_def split: prod.splits)

lemma inst_fetch_cases:
  "inst_fetch mm p pc =
     (if misaligned U16 pc then (p\<lparr>badaddr := pc\<rparr>, mm, Longjmp riscv_cause_misaligned_fetch)
      else if illegal (fst (translate_addr False mm p pc)) \<or>
              illegal (mpa_to_uva (mem (snd (snd (translate_addr False mm p pc))))
                         (fst (translate_addr False mm p pc)))
      then (p\<lparr>badaddr := pc\<rparr>, snd (snd (translate_addr False mm p pc)),
            Longjmp riscv_cause_fault_fetch)
      else (p, snd (snd (translate_addr False mm p pc)),
            Return (riscv_inst_fetch (host (mem (snd (snd (translate_addr False mm p pc)))))
              (mpa_to_uva (mem (snd (snd (translate_addr False mm p pc))))
                 (fst (translate_addr False mm p pc))))))"
  by (simp add: inst_fetch_def Let_def split: prod.splits)

lemma bare_proc_fields:
  "mode bare_proc = riscv_mode_M" "mstatus_mprv bare_proc = False"
  "mstatus_vm bare_proc = riscv_vm_mbare"
  by (simp_all add: bare_proc_def)

lemma bare_mmu_fields:
  "mem bare_mmu = bare_mem" "pma bare_mmu = readonly_pma"
  by (simp_all add: bare_mmu_def)

lemma bare_translate: "translate_addr f bare_mmu bare_proc va = (va, None, bare_mmu)"
  by (simp add: translate_addr_def bare_proc_fields)

lemma bare_mem_uva:
  "mpa_to_uva bare_mem 0x1000 = 0x10000"
  "mpa_to_uva bare_mem 0x5000 = illegal_address"
  by (simp_all add: mpa_to_uva_def bare_mem_def)

section \<open>Identity translation\<close>

text \<open>
  Claim C8. For every access issued while the mode is M and \<open>mprv\<close> is clear, and for every
  access issued with \<open>vm = mbare\<close>, translation is the identity: \<open>translate_addr\<close> returns
  the virtual address itself, with no TLB entry, and leaves the MMU (both TLBs included)
  as it was; since this holds for every MMU state, the result depends on no TLB content
  and on no page table.
\<close>

theorem translate_addr_identity:
  assumes "(mode p = riscv_mode_M \<and> \<not> mstatus_mprv p) \<or> mstatus_vm p = riscv_vm_mbare"
  shows "translate_addr f mm p va = (va, None, mm)"
  using assms by (auto simp: translate_addr_def)

theorem translate_addr_identity_witness:
  "translate_addr True megapage_mmu bare_proc 0x40001000 = (0x40001000, None, megapage_mmu) \<and>
   translate_addr False megapage_mmu (megapage_proc\<lparr>mstatus_vm := riscv_vm_mbare\<rparr>) 0x40001000 =
     (0x40001000, None, megapage_mmu)"
proof -
  have m: "(mode bare_proc = riscv_mode_M \<and> \<not> mstatus_mprv bare_proc) \<or>
           mstatus_vm bare_proc = riscv_vm_mbare"
    by (simp add: bare_proc_fields)
  have b: "(mode (megapage_proc\<lparr>mstatus_vm := riscv_vm_mbare\<rparr>) = riscv_mode_M \<and>
            \<not> mstatus_mprv (megapage_proc\<lparr>mstatus_vm := riscv_vm_mbare\<rparr>)) \<or>
           mstatus_vm (megapage_proc\<lparr>mstatus_vm := riscv_vm_mbare\<rparr>) = riscv_vm_mbare"
    by simp
  show ?thesis
    using translate_addr_identity [OF m, of True megapage_mmu "0x40001000"]
      translate_addr_identity [OF b, of False megapage_mmu "0x40001000"]
    by simp
qed

section \<open>Faults\<close>

text \<open>
  Claim C10. A typed load that faults (with \<open>misaligned_load\<close> or \<open>fault_load\<close>, the only
  causes it raises) leaves the caller's destination \<open>val\<close> as it was: the destination is
  written on the returning path only.
\<close>

theorem load_fault_keeps_val:
  assumes "snd (snd (snd (load T mm p va val))) = Longjmp c"
  shows "fst (snd (snd (load T mm p va val))) = val"
  using assms by (auto simp: load_cases split: if_splits)

theorem load_fault_keeps_val_witness:
  "snd (snd (snd (load U32 bare_mmu bare_proc 0x1002 7))) = Longjmp riscv_cause_misaligned_load \<and>
   fst (snd (snd (load U32 bare_mmu bare_proc 0x1002 7))) = 7 \<and>
   snd (snd (snd (load U32 bare_mmu bare_proc 0x5000 7))) = Longjmp riscv_cause_fault_load \<and>
   fst (snd (snd (load U32 bare_mmu bare_proc 0x5000 7))) = 7"
proof -
  have a: "snd (snd (snd (load U32 bare_mmu bare_proc 0x1002 7))) =
             Longjmp riscv_cause_misaligned_load"
    by (simp add: load_cases misaligned_def)
  have b: "snd (snd (snd (load U32 bare_mmu bare_proc 0x5000 7))) = Longjmp riscv_cause_fault_load"
    by (simp add: load_cases misaligned_def bare_translate bare_mmu_fields bare_mem_uva illegal_def)
  show ?thesis
    using a b load_fault_keeps_val [OF a] load_fault_keeps_val [OF b] by simp
qed

text \<open>
  Claim C7. Whenever \<open>inst_fetch\<close>, \<open>load\<close> or \<open>store\<close> leaves by \<^verbatim>\<open>longjmp\<close>, the processor
  it leaves behind is the one it was given with \<open>badaddr\<close> set to the virtual address of
  the access, and the cause is the misaligned or the fault cause of that kind of access.
\<close>

theorem fault_records_badaddr:
  "(snd (snd (inst_fetch mm p va)) = Longjmp c \<longrightarrow>
      fst (inst_fetch mm p va) = p\<lparr>badaddr := va\<rparr> \<and>
      (c = riscv_cause_misaligned_fetch \<or> c = riscv_cause_fault_fetch)) \<and>
   (snd (snd (snd (load T mm p va val))) = Longjmp c \<longrightarrow>
      fst (load T mm p va val) = p\<lparr>badaddr := va\<rparr> \<and>
      (c = riscv_cause_misaligned_load \<or> c = riscv_cause_fault_load)) \<and>
   (snd (snd (store T mm p va val)) = Longjmp c \<longrightarrow>
      fst (store T mm p va val) = p\<lparr>badaddr := va\<rparr> \<and>
      (c = riscv_cause_misaligned_store \<or> c = riscv_cause_fault_store))"
  by (auto simp: load_cases store_cases inst_fetch_cases split: if_splits)

theorem fault_records_badaddr_witness:
  "snd (snd (snd (load U32 bare_mmu bare_proc 0x1002 0))) = Longjmp riscv_cause_misaligned_load \<and>
   badaddr (fst (load U32 bare_mmu bare_proc 0x1002 0)) = 0x1002 \<and>
   snd (snd (store U32 bare_mmu bare_proc 0x5000 0)) = Longjmp riscv_cause_fault_store \<and>
   badaddr (fst (store U32 bare_mmu bare_proc 0x5000 0)) = 0x5000 \<and>
   snd (snd (inst_fetch bare_mmu bare_proc 0x5000)) = Longjmp riscv_cause_fault_fetch \<and>
   badaddr (fst (inst_fetch bare_mmu bare_proc 0x5000)) = 0x5000"
proof -
  have a: "snd (snd (snd (load U32 bare_mmu bare_proc 0x1002 0))) =
             Longjmp riscv_cause_misaligned_load"
    by (simp add: load_cases misaligned_def)
  have b: "snd (snd (store U32 bare_mmu bare_proc 0x5000 0)) = Longjmp riscv_cause_fault_store"
    by (simp add: store_cases misaligned_def bare_translate bare_mmu_fields bare_mem_uva illegal_def)
  have c: "snd (snd (inst_fetch bare_mmu bare_proc 0x5000)) = Longjmp riscv_cause_fault_fetch"
    by (simp add: inst_fetch_cases misaligned_def bare_translate bare_mmu_fields bare_mem_uva
        illegal_def)
  show ?thesis
    using a b c
      fault_records_badaddr [of bare_mmu bare_proc "0x1002" riscv_cause_misaligned_load U32 0]
      fault_records_badaddr [of bare_mmu bare_proc "0x5000" riscv_cause_fault_store U32 0]
      fault_records_badaddr [of bare_mmu bare_proc "0x5000" riscv_cause_fault_fetch U32 0]
    by simp
qed

text \<open>
  Claim C6. An access raises the misaligned cause of its kind exactly when its address is
  not aligned to the width of the access (\<open>sizeof T\<close> for a load or store of type \<open>T\<close>,
  two bytes for a fetch). It does so before any translation: the misaligned access
  returns the MMU unchanged, whatever its TLBs and memory hold. No access raises the
  misaligned cause of another kind, so an access whose address satisfies
  \<open>va AND (align - 1) = 0\<close> raises no misaligned cause at all.
\<close>

theorem misaligned_exactly:
  "(snd (snd (inst_fetch mm p va)) = Longjmp riscv_cause_misaligned_fetch \<longleftrightarrow> va AND (2 - 1) \<noteq> 0) \<and>
   (snd (snd (snd (load T mm p va val))) = Longjmp riscv_cause_misaligned_load \<longleftrightarrow>
      va AND (of_nat (sizeof T) - 1) \<noteq> 0) \<and>
   (snd (snd (store T mm p va val)) = Longjmp riscv_cause_misaligned_store \<longleftrightarrow>
      va AND (of_nat (sizeof T) - 1) \<noteq> 0) \<and>
   (va AND (2 - 1) \<noteq> 0 \<longrightarrow>
      inst_fetch mm p va = (p\<lparr>badaddr := va\<rparr>, mm, Longjmp riscv_cause_misaligned_fetch)) \<and>
   (va AND (of_nat (sizeof T) - 1) \<noteq> 0 \<longrightarrow>
      load T mm p va val = (p\<lparr>badaddr := va\<rparr>, mm, val, Longjmp riscv_cause_misaligned_load) \<and>
      store T mm p va val = (p\<lparr>badaddr := va\<rparr>, mm, Longjmp riscv_cause_misaligned_store)) \<and>
   snd (snd (inst_fetch mm p va)) \<noteq> Longjmp riscv_cause_misaligned_load \<and>
   snd (snd (inst_fetch mm p va)) \<noteq> Longjmp riscv_cause_misaligned_store \<and>
   snd (snd (snd (load T mm p va val))) \<noteq> Longjmp riscv_cause_misaligned_fetch \<and>
   snd (snd (snd (load T mm p va val))) \<noteq> Longjmp riscv_cause_misaligned_store \<and>
   snd (snd (store T mm p va val)) \<noteq> Longjmp riscv_cause_misaligned_fetch \<and>
   snd (snd (store T mm p va val)) \<noteq> Longjmp riscv_cause_misaligned_load"
  by (simp add: load_cases store_cases inst_fetch_cases misaligned_def)

theorem misaligned_exactly_witness:
  "load U32 megapage_mmu megapage_proc 0x1002 7 =
     (megapage_proc\<lparr>badaddr := 0x1002\<rparr>, megapage_mmu, 7, Longjmp riscv_cause_misaligned_load) \<and>
   store U64 megapage_mmu megapage_proc 0x1004 7 =
     (megapage_proc\<lparr>badaddr := 0x1004\<rparr>, megapage_mmu, Longjmp riscv_cause_misaligned_store) \<and>
   inst_fetch megapage_mmu megapage_proc 0x40001001 =
     (megapage_proc\<lparr>badaddr := 0x40001001\<rparr>, megapage_mmu, Longjmp riscv_cause_misaligned_fetch) \<and>
   snd (snd (snd (load U32 bare_mmu bare_proc 0x1000 7))) \<noteq> Longjmp riscv_cause_misaligned_load \<and>
   snd (snd (inst_fetch bare_mmu bare_proc 0x1002)) \<noteq> Longjmp riscv_cause_misaligned_fetch"
  using misaligned_exactly [of megapage_mmu megapage_proc "0x1002" U32 7]
    misaligned_exactly [of megapage_mmu megapage_proc "0x1004" U64 7]
    misaligned_exactly [of megapage_mmu megapage_proc "0x40001001" U8 7]
    misaligned_exactly [of bare_mmu bare_proc "0x1000" U32 7]
    misaligned_exactly [of bare_mmu bare_proc "0x1002" U32 7]
  by simp

section \<open>The fault tests of the walker\<close>

lemma and_1_odd: "((w :: 64 word) AND 1 \<noteq> 0) = odd w"
  by (auto simp: bit_eq_iff bit_simps bit_0 intro: exI[of _ 0])

lemma pte_fault_bits:
  "pte_fault fl =
     (\<not> bit fl pte_shift_V \<or> (\<not> bit fl pte_shift_R \<and> bit fl pte_shift_W))"
  unfolding pte_fault_def pte_shift_V_def pte_shift_R_def pte_shift_W_def
  by (simp add: and_1_odd even_or_iff even_and_iff even_drop_bit_iff_not_bit bit_simps bit_0)

lemma pte_leaf_bits:
  "((fl :: 64 word) AND (pte_flag_R OR pte_flag_X) \<noteq> 0) =
     (bit fl pte_shift_R \<or> bit fl pte_shift_X)"
  by (simp only: pte_flag_R_def pte_flag_X_def push_bit_of_1
      bit.conj_disj_distrib or_eq_0_iff and_exp_eq_0_iff_not_bit de_Morgan_conj not_not)

lemma host_read_8:
  "host_read h a 8 =
     ucast (h a) OR push_bit 8 (ucast (h (a + 1)) OR push_bit 8 (ucast (h (a + 2)) OR
     push_bit 8 (ucast (h (a + 3)) OR push_bit 8 (ucast (h (a + 4)) OR
     push_bit 8 (ucast (h (a + 5)) OR push_bit 8 (ucast (h (a + 6)) OR
     push_bit 8 (ucast (h (a + 7)))))))))"
  by (simp add: eval_nat_numeral add.assoc)

lemma host_read_2:
  "host_read h a 2 = ucast (h a) OR push_bit 8 (ucast (h (a + 1)))"
  by (simp add: eval_nat_numeral)

lemma invalid_leaf_pte:
  "mpa_to_uva invalid_leaf_mem (walk_pte_mpa sv39 0 0 0) = 0x10000"
  "read_pte sv39 invalid_leaf_mem 0x10000 = \<lparr>pte_flags = 0xA, pte_ppn = 0\<rparr>"
  by (simp_all add: mpa_to_uva_def invalid_leaf_mem_def walk_pte_mpa_def walk_vpn_def
      read_pte_def sv39_def host_read_8)

lemma small_sum_legal:
  fixes a b :: "64 word"
  assumes a: "uint a < 2 ^ 50" and b: "uint b < 2 ^ 48"
  shows "a + b \<noteq> illegal_address"
proof
  assume "a + b = illegal_address"
  then have "uint (a + b) = uint (- 1 :: 64 word)"
    by (simp add: illegal_address_def)
  moreover have "uint (a + b) = (uint a + uint b) mod 2 ^ 64"
    by (simp add: uint_word_ariths)
  moreover have "0 \<le> uint a" "0 \<le> uint b"
    by simp_all
  moreover have "uint (- 1 :: 64 word) = 2 ^ 64 - 1"
    by (simp add: unsigned_minus_1_eq_mask mask_eq_exp_minus_1)
  ultimately show False
    using a b by simp
qed

lemma ppn_small:
  fixes w :: "64 word"
  assumes "n \<le> 38"
  shows "uint (push_bit 12 (drop_bit 10 w AND (push_bit n 1 - 1))) < 2 ^ 50"
proof -
  have "push_bit 12 (drop_bit 10 w AND (push_bit n 1 - 1)) =
        push_bit 12 (drop_bit 10 w AND (push_bit n 1 - 1)) AND mask 50"
    using assms
    by (intro bit_word_eqI) (auto simp: bit_simps push_bit_of_1 simp flip: mask_eq_exp_minus_1)
  then show ?thesis
    using and_mask_lt_2p [of "push_bit 12 (drop_bit 10 w AND (push_bit n 1 - 1))" 50] by simp
qed

lemma low_small:
  fixes va :: "64 word"
  assumes "s \<le> 48"
  shows "uint (va AND (push_bit s 1 - 1)) < 2 ^ 48"
proof -
  have "va AND (push_bit s 1 - 1) = (va AND (push_bit s 1 - 1)) AND mask 48"
    using assms
    by (intro bit_word_eqI) (auto simp: bit_simps push_bit_of_1 simp flip: mask_eq_exp_minus_1)
  then show ?thesis
    using and_mask_lt_2p [of "va AND (push_bit s 1 - 1)" 48] by simp
qed

text \<open>
  Under sv39 and sv48 the address a leaf PTE gives is never \<open>illegal_address\<close>, at the
  levels their walks visit: a PTE that passes the fault tests and is a leaf ends the walk
  with a success.
\<close>

lemma leaf_address_legal:
  assumes "pt = sv39 \<or> pt = sv48" and "level < ptm_levels pt"
  shows "push_bit page_shift (pte_ppn (read_pte pt m uva)) +
           (va AND (push_bit (walk_shift pt level) 1 - 1)) \<noteq> illegal_address"
proof -
  have "ptm_ppn_bits pt \<le> 38"
    using assms(1) by (auto simp: sv39_def sv48_def)
  moreover have "walk_shift pt level \<le> 48"
    using assms by (auto simp: sv39_def sv48_def walk_shift_def page_shift_def)
  ultimately have
    "push_bit 12 (drop_bit 10 (host_read (host m) uva (ptm_pte_size pt)) AND
        (push_bit (ptm_ppn_bits pt) 1 - 1)) +
     (va AND (push_bit (walk_shift pt level) 1 - 1)) \<noteq> illegal_address"
    by (intro small_sum_legal ppn_small low_small)
  then show ?thesis
    by (simp only: read_pte_def page_shift_def Let_def pte_type.simps simp_thms)
qed

text \<open>
  One iteration of the walker's loop on a PTE that could be fetched: the fault tests, then
  the leaf test, then the step to the next level.
\<close>

lemma walk_step:
  assumes "mpa_to_uva m (walk_pte_mpa pt va level pn) = pte_uva"
    and "pte_uva \<noteq> illegal_address"
    and "read_pte pt m pte_uva = pte"
  shows "walk_levels pt m va (Suc level) pn =
     (if \<not> bit (pte_flags pte) pte_shift_V \<or>
         (\<not> bit (pte_flags pte) pte_shift_R \<and> bit (pte_flags pte) pte_shift_W)
      then (illegal_address, pte)
      else if bit (pte_flags pte) pte_shift_R \<or> bit (pte_flags pte) pte_shift_X
      then (push_bit page_shift (pte_ppn pte) +
              (va AND (push_bit (walk_shift pt level) 1 - 1)), pte)
      else walk_levels pt m va level (pte_ppn pte))"
  using assms by (simp add: pte_fault_bits pte_leaf_bits Let_def)

section \<open>The PMA table\<close>

lemma translate_paged_pma:
  "translate_paged pt f (mm\<lparr>pma := t\<rparr>) p va =
     (case translate_paged pt f mm p va of (pa, e, mm') \<Rightarrow> (pa, e, mm'\<lparr>pma := t\<rparr>))"
  by (simp add: translate_paged_def split: prod.splits)

lemma translate_addr_pma:
  "translate_addr f (mm\<lparr>pma := t\<rparr>) p va =
     (case translate_addr f mm p va of (pa, e, mm') \<Rightarrow> (pa, e, mm'\<lparr>pma := t\<rparr>))"
  by (simp add: translate_addr_def translate_paged_pma split: riscv_vm.splits)

lemma translate_addr_pma_parts:
  "fst (translate_addr f (mm\<lparr>pma := t\<rparr>) p va) = fst (translate_addr f mm p va)"
  "snd (snd (translate_addr f (mm\<lparr>pma := t\<rparr>) p va)) =
     (snd (snd (translate_addr f mm p va)))\<lparr>pma := t\<rparr>"
  by (simp_all add: translate_addr_pma split: prod.splits)

lemma host_read_4:
  "host_read h a 4 =
     ucast (h a) OR push_bit 8 (ucast (h (a + 1)) OR push_bit 8 (ucast (h (a + 2)) OR
     push_bit 8 (ucast (h (a + 3)))))"
  by (simp add: eval_nat_numeral add.assoc)

lemma host_write_4:
  "host_write h a 4 v =
     h(a := ucast v, a + 1 := ucast (drop_bit 8 v), a + 2 := ucast (drop_bit 8 (drop_bit 8 v)),
       a + 3 := ucast (drop_bit 8 (drop_bit 8 (drop_bit 8 v))))"
  by (simp add: eval_nat_numeral add.assoc)

lemma bare_store_written:
  "host_read (host_write (host bare_mem) 0x10000 4 0xDEADBEEF) 0x10000 4 = 0xDEADBEEF"
  by (simp add: host_read_4 host_write_4 bare_mem_def)

text \<open>
  Claim C3 does not hold: in machine mode without \<open>mprv\<close>, with memory at physical address
  0x1000 and a PMA table whose entry for that page is not writable, a store of a 32-bit
  value to 0x1000 returns normally and writes the value.
\<close>

theorem store_to_readonly_pma_succeeds:
  "pma_lookup (pma bare_mmu) 0x1000 =
     Some \<lparr>pma_base = 0x1000, pma_length = 0x1000, pma_readable = True,
           pma_writable = False, pma_executable = False\<rparr> \<and>
   snd (snd (store U32 bare_mmu bare_proc 0x1000 0xDEADBEEF)) = Return () \<and>
   snd (snd (store U32 bare_mmu bare_proc 0x1000 0xDEADBEEF)) \<noteq> Longjmp riscv_cause_fault_store \<and>
   host_read (host (mem (fst (snd (store U32 bare_mmu bare_proc 0x1000 0xDEADBEEF))))) 0x10000 4 =
     0xDEADBEEF"
  by (simp add: store_cases misaligned_def bare_translate bare_mmu_fields bare_mem_uva
      illegal_def illegal_address_def readonly_pma_def bare_store_written)

text \<open>
  Claim C3, amended. The MMU holds a PMA table, and \<open>inst_fetch\<close>, \<open>load\<close> and \<open>store\<close> never
  consult it: with any other PMA table in place of the MMU's, each of them gives the same
  processor, the same result (return or cause), the same value read and the same MMU but
  for the table. An aligned access raises the fault cause of its kind exactly when the
  translation gives \<open>illegal_address\<close> or the memory device has no mapping for the
  translated address.
\<close>

theorem pma_not_consulted:
  "inst_fetch (mm\<lparr>pma := t\<rparr>) p va =
     (case inst_fetch mm p va of (p', mm', r) \<Rightarrow> (p', mm'\<lparr>pma := t\<rparr>, r)) \<and>
   load T (mm\<lparr>pma := t\<rparr>) p va val =
     (case load T mm p va val of (p', mm', val', r) \<Rightarrow> (p', mm'\<lparr>pma := t\<rparr>, val', r)) \<and>
   store T (mm\<lparr>pma := t\<rparr>) p va val =
     (case store T mm p va val of (p', mm', r) \<Rightarrow> (p', mm'\<lparr>pma := t\<rparr>, r)) \<and>
   (snd (snd (inst_fetch mm p va)) = Longjmp riscv_cause_fault_fetch \<longleftrightarrow>
      \<not> misaligned U16 va \<and>
      (illegal (fst (translate_addr False mm p va)) \<or>
       illegal (mpa_to_uva (mem (snd (snd (translate_addr False mm p va))))
                  (fst (translate_addr False mm p va))))) \<and>
   (snd (snd (snd (load T mm p va val))) = Longjmp riscv_cause_fault_load \<longleftrightarrow>
      \<not> misaligned T va \<and>
      (illegal (fst (translate_addr False mm p va)) \<or>
       illegal (mpa_to_uva (mem (snd (snd (translate_addr False mm p va))))
                  (fst (translate_addr False mm p va))))) \<and>
   (snd (snd (store T mm p va val)) = Longjmp riscv_cause_fault_store \<longleftrightarrow>
      \<not> misaligned T va \<and>
      (illegal (fst (translate_addr False mm p va)) \<or>
       illegal (mpa_to_uva (mem (snd (snd (translate_addr False mm p va))))
                  (fst (translate_addr False mm p va)))))"
  by (simp add: inst_fetch_cases load_cases store_cases translate_addr_pma_parts)

theorem pma_not_consulted_witness:
  "store U32 (bare_mmu\<lparr>pma := []\<rparr>) bare_proc 0x1000 0xDEADBEEF =
     (case store U32 bare_mmu bare_proc 0x1000 0xDEADBEEF of
        (p', mm', r) \<Rightarrow> (p', mm'\<lparr>pma := []\<rparr>, r))"
  using pma_not_consulted [where mm = bare_mmu and t = "[]" and p = bare_proc and va = "0x1000"
      and T = U32 and val = "0xDEADBEEF"]
  by simp

section \<open>The megapage configuration, step by step\<close>

lemma megapage_proc_fields:
  "mode megapage_proc = riscv_mode_S" "mstatus_vm megapage_proc = riscv_vm_sv39"
  "pdid megapage_proc = 0" "sptbr megapage_proc = 0"
  by (simp_all add: megapage_proc_def)

lemma megapage_mmu_fields:
  "l1_dtlb megapage_mmu = empty_tlb" "l1_itlb megapage_mmu = empty_tlb"
  "mem megapage_mmu = megapage_mem"
  by (simp_all add: megapage_mmu_def)

lemma empty_tlb_fields: "ent empty_tlb i = None" "ppn_bits empty_tlb = 38"
  by (simp_all add: empty_tlb_def)

lemma walk_levels_3:
  "walk_levels pt m va 3 pn = walk_levels pt m va (Suc (Suc (Suc 0))) pn"
  by (simp add: eval_nat_numeral)

lemma megapage_pte_mpa:
  "walk_pte_mpa sv39 0x40001000 (Suc (Suc 0)) 0 = 8"
  "walk_pte_mpa sv39 0x40001000 (Suc 0) 0 = 0"
  by (simp_all add: walk_pte_mpa_def walk_vpn_def walk_shift_def sv39_def page_shift_def)

lemma megapage_shift: "walk_shift sv39 (Suc 0) = 21"
  by (simp add: walk_shift_def sv39_def page_shift_def)

lemma megapage_uva:
  "mpa_to_uva megapage_mem 8 = 0x10008"
  "mpa_to_uva megapage_mem 0 = 0x10000"
  "mpa_to_uva megapage_mem 0x100001000 = 0x40001000"
  "mpa_to_uva megapage_mem 0x100000000 = 0x40000000"
  by (simp_all add: mpa_to_uva_def megapage_mem_def)

lemma megapage_ptes:
  "read_pte sv39 megapage_mem 0x10008 = \<lparr>pte_flags = 1, pte_ppn = 0\<rparr>"
  "read_pte sv39 megapage_mem 0x10000 = \<lparr>pte_flags = 0xB, pte_ppn = 0x100000\<rparr>"
  by (simp_all add: read_pte_def sv39_def megapage_mem_def host_read_8)

lemma megapage_no_fault: "\<not> pte_fault 1" "\<not> pte_fault 0xB"
  by (simp_all add: pte_fault_def pte_shift_V_def pte_shift_R_def pte_shift_W_def)

lemma megapage_walk_levels:
  "walk_levels sv39 megapage_mem 0x40001000 3 0 =
     (0x100001000, \<lparr>pte_flags = 0xB, pte_ppn = 0x100000\<rparr>)"
  by (simp add: walk_levels_3 megapage_pte_mpa megapage_shift megapage_uva megapage_ptes
      illegal_address_def megapage_no_fault pte_flag_R_def pte_flag_X_def pte_shift_R_def
      pte_shift_X_def page_shift_def)

lemma megapage_walk:
  "walk_page_table sv39 megapage_proc megapage_mem empty_tlb 0x40001000 =
     (0x100001000, \<lparr>pte_flags = 0xB, pte_ppn = 0x100000\<rparr>)"
proof -
  have "ptm_levels sv39 = 3"
    by (simp add: sv39_def)
  then show ?thesis
    by (simp add: walk_page_table_def megapage_proc_fields megapage_walk_levels)
qed

lemma megapage_index: "tlb_index 0x40001000 = 1"
  by (simp add: tlb_index_def page_shift_def)

lemma megapage_miss:
  "page_translate_addr_tlb_miss sv39 megapage_proc megapage_mem empty_tlb 0x40001000 =
     (0x100001000, Some megapage_ent, megapage_tlb)"
  by (simp add: page_translate_addr_tlb_miss_def megapage_walk illegal_address_def insert_tlb_def
      megapage_index megapage_ent_def megapage_tlb_def megapage_proc_fields page_shift_def
      Let_def empty_tlb_fields)

lemma megapage_first_translation:
  "page_translate_addr sv39 megapage_proc megapage_mem empty_tlb 0x40001000 =
     (0x100001000, Some megapage_ent, megapage_tlb)"
  by (simp add: page_translate_addr_def lookup_def megapage_index megapage_miss empty_tlb_fields)

lemma megapage_second_translation:
  "page_translate_addr sv39 megapage_proc megapage_mem megapage_tlb 0x40001000 =
     (0x100000000, Some megapage_ent, megapage_tlb)"
  by (simp add: page_translate_addr_def lookup_def megapage_index megapage_tlb_def
      megapage_ent_def megapage_proc_fields page_shift_def page_mask_def)

lemma megapage_translate_1:
  "translate_addr False megapage_mmu megapage_proc 0x40001000 =
     (0x100001000, Some megapage_ent, megapage_mmu\<lparr>l1_dtlb := megapage_tlb\<rparr>)"
  by (simp add: translate_addr_def translate_paged_def megapage_proc_fields megapage_mmu_fields
      megapage_first_translation)

lemma megapage_translate_2:
  "translate_addr False (megapage_mmu\<lparr>l1_dtlb := megapage_tlb\<rparr>) megapage_proc 0x40001000 =
     (0x100000000, Some megapage_ent, megapage_mmu\<lparr>l1_dtlb := megapage_tlb\<rparr>)"
  by (simp add: translate_addr_def translate_paged_def megapage_proc_fields megapage_mmu_fields
      megapage_second_translation)

lemma megapage_insts:
  "riscv_inst_fetch (host megapage_mem) 0x40001000 = (1, 2)"
  "riscv_inst_fetch (host megapage_mem) 0x40000000 = (0x13, 4)"
  by (simp_all add: riscv_inst_fetch_def host_read_2 megapage_mem_def)

lemma megapage_fetch_1:
  "inst_fetch megapage_mmu megapage_proc 0x40001000 =
     (megapage_proc, megapage_mmu\<lparr>l1_dtlb := megapage_tlb\<rparr>, Return (1, 2))"
  by (simp add: inst_fetch_def misaligned_def megapage_translate_1 illegal_def
      illegal_address_def megapage_mmu_fields megapage_uva megapage_insts)

lemma megapage_fetch_2:
  "inst_fetch (megapage_mmu\<lparr>l1_dtlb := megapage_tlb\<rparr>) megapage_proc 0x40001000 =
     (megapage_proc, megapage_mmu\<lparr>l1_dtlb := megapage_tlb\<rparr>, Return (0x13, 4))"
  by (simp add: inst_fetch_def misaligned_def megapage_translate_2 illegal_def
      illegal_address_def megapage_mmu_fields megapage_uva megapage_insts)

text \<open>
  Claim C4 (a leaf PTE at shift S passes the low S bits of the virtual address through on
  every translation) fails on the second fetch. The first fetch from 0x40001000 misses the
  TLB, walks to the level-1 leaf and reads the instruction at physical address
  0x100001000; it inserts the leaf's ppn 0x100000 for the virtual page 0x40001. The
  second fetch hits that entry and composes \<^verbatim>\<open>(ppn << 12) | (va & 4095)\<close>, which is
  0x100000000: bits 12 to 20 of the virtual address are lost, and the instruction read is
  the one at the start of the megapage.
\<close>

theorem megapage_second_fetch_loses_offset:
  "inst_fetch megapage_mmu megapage_proc 0x40001000 =
     (megapage_proc, megapage_mmu\<lparr>l1_dtlb := megapage_tlb\<rparr>, Return (1, 2)) \<and>
   fst (translate_addr False megapage_mmu megapage_proc 0x40001000) = 0x100001000 \<and>
   inst_fetch (megapage_mmu\<lparr>l1_dtlb := megapage_tlb\<rparr>) megapage_proc 0x40001000 =
     (megapage_proc, megapage_mmu\<lparr>l1_dtlb := megapage_tlb\<rparr>, Return (0x13, 4)) \<and>
   fst (translate_addr False (megapage_mmu\<lparr>l1_dtlb := megapage_tlb\<rparr>) megapage_proc 0x40001000) =
     0x100000000"
  by (simp add: megapage_fetch_1 megapage_fetch_2 megapage_translate_1 megapage_translate_2)

section \<open>Which TLB a fetch uses\<close>

lemma translate_addr_data_keeps_itlb:
  "l1_itlb (snd (snd (translate_addr False mm p va))) = l1_itlb mm"
  by (simp add: translate_addr_def translate_paged_def split: riscv_vm.splits prod.splits)

lemma inst_fetch_keeps_itlb:
  "l1_itlb (fst (snd (inst_fetch mm p pc))) = l1_itlb mm"
  by (simp add: inst_fetch_cases translate_addr_data_keeps_itlb)

lemma load_store_keep_itlb:
  "l1_itlb (fst (snd (load T mm p va val))) = l1_itlb mm"
  "l1_itlb (fst (snd (store T mm p va val))) = l1_itlb mm"
  by (simp_all add: load_cases store_cases translate_addr_data_keeps_itlb)

text \<open>
  Claim C2 (a fetch translated through paging looks up and fills the instruction TLB)
  fails: \<open>inst_fetch\<close> passes \<^verbatim>\<open>false\<close> as the \<^verbatim>\<open>inst_fetch\<close> argument of the translation,
  so the fetch from 0x40001000 under sv39 leaves the instruction TLB empty and puts the
  new entry into the data TLB, where the next fetch finds it.
\<close>

theorem fetch_fills_data_tlb:
  "ent (l1_dtlb megapage_mmu) (tlb_index 0x40001000) = None \<and>
   ent (l1_itlb megapage_mmu) (tlb_index 0x40001000) = None \<and>
   ent (l1_dtlb (fst (snd (inst_fetch megapage_mmu megapage_proc 0x40001000))))
     (tlb_index 0x40001000) = Some megapage_ent \<and>
   ent (l1_itlb (fst (snd (inst_fetch megapage_mmu megapage_proc 0x40001000))))
     (tlb_index 0x40001000) = None \<and>
   l1_itlb (fst (snd (inst_fetch megapage_mmu megapage_proc 0x40001000))) = l1_itlb megapage_mmu"
  by (simp add: megapage_fetch_1 megapage_mmu_fields empty_tlb_fields megapage_tlb_def
      megapage_index)

section \<open>The address of the PTE the walker reads\<close>

lemma root_proc_fields:
  "mode root_proc = riscv_mode_S" "mstatus_vm root_proc = riscv_vm_sv39"
  "pdid root_proc = 0" "sptbr root_proc = 0x80000"
  by (simp_all add: root_proc_def)

lemma root_mmu_fields:
  "l1_dtlb root_mmu = empty_tlb" "l1_itlb root_mmu = empty_tlb" "mem root_mmu = root_mem"
  by (simp_all add: root_mmu_def)

lemma root_vpn: "walk_vpn sv39 0x1000 (Suc (Suc 0)) = 0"
  by (simp add: walk_vpn_def walk_shift_def sv39_def page_shift_def)

lemma root_pte_mpa: "walk_pte_mpa sv39 0x1000 (Suc (Suc 0)) 0x80000 = 0x80000"
  by (simp add: walk_pte_mpa_def root_vpn)

lemma root_uva:
  "mpa_to_uva root_mem 0x80000 = illegal_address"
  "mpa_to_uva root_mem 0x80000000 = 0x10000"
  by (simp_all add: mpa_to_uva_def root_mem_def)

lemma root_pte: "read_pte sv39 root_mem 0x10000 = \<lparr>pte_flags = 7, pte_ppn = 1\<rparr>"
  by (simp add: read_pte_def sv39_def root_mem_def host_read_8)

lemma root_walk:
  "walk_page_table sv39 root_proc root_mem empty_tlb 0x1000 = (illegal_address, zero_pte)"
proof -
  have "ptm_levels sv39 = 3"
    by (simp add: sv39_def)
  moreover have "sptbr root_proc AND (push_bit (ppn_bits empty_tlb) 1 - 1) = 0x80000"
    by (simp add: root_proc_fields empty_tlb_fields)
  ultimately show ?thesis
    by (simp add: walk_page_table_def walk_levels_3 root_pte_mpa root_uva)
qed

lemma root_translate:
  "translate_addr False root_mmu root_proc 0x1000 = (illegal_address, None, root_mmu)"
proof -
  have "page_translate_addr sv39 root_proc root_mem empty_tlb 0x1000 =
          (illegal_address, None, empty_tlb)"
    by (simp add: page_translate_addr_def lookup_def empty_tlb_fields
        page_translate_addr_tlb_miss_def root_walk)
  then show ?thesis
    by (simp add: translate_addr_def translate_paged_def root_proc_fields root_mmu_fields)
qed

text \<open>
  Claim C1 (the PTE is read at \<^verbatim>\<open>(ppn << 12) + vpn * pte_size\<close>) fails: the source adds the
  page number itself, \<^verbatim>\<open>pte_mpa = ppn + vpn * sizeof(pte_type)\<close>. With the root table at
  physical address 0x80000000 and \<open>sptbr = 0x80000\<close>, the walk for virtual address 0x1000
  looks for its first PTE at physical address 0x80000 instead of 0x80000000, where the
  valid leaf for that address lies; nothing is mapped at 0x80000, so the walk fails and
  the load raises \<open>fault_load\<close>.
\<close>

theorem walker_reads_pte_at_unshifted_ppn:
  "sptbr root_proc AND (push_bit (ppn_bits empty_tlb) 1 - 1) = 0x80000 \<and>
   walk_pte_mpa sv39 0x1000 2 0x80000 = 0x80000 \<and>
   push_bit 12 0x80000 + walk_vpn sv39 0x1000 2 * of_nat (ptm_pte_size sv39) = (0x80000000 :: UX) \<and>
   read_pte sv39 root_mem (mpa_to_uva root_mem 0x80000000) = \<lparr>pte_flags = 7, pte_ppn = 1\<rparr> \<and>
   mpa_to_uva root_mem 0x80000 = illegal_address \<and>
   walk_page_table sv39 root_proc root_mem empty_tlb 0x1000 = (illegal_address, zero_pte) \<and>
   load U8 root_mmu root_proc 0x1000 0 =
     (root_proc\<lparr>badaddr := 0x1000\<rparr>, root_mmu, 0, Longjmp riscv_cause_fault_load)"
proof -
  have two: "(2 :: nat) = Suc (Suc 0)"
    by simp
  have a: "sptbr root_proc AND (push_bit (ppn_bits empty_tlb) 1 - 1) = 0x80000"
    by (simp add: root_proc_fields empty_tlb_fields)
  have b: "walk_pte_mpa sv39 0x1000 2 0x80000 = 0x80000"
    by (simp only: two root_pte_mpa)
  have "walk_vpn sv39 0x1000 2 = 0"
    by (simp only: two root_vpn)
  then have c: "push_bit 12 0x80000 + walk_vpn sv39 0x1000 2 * of_nat (ptm_pte_size sv39) =
                  (0x80000000 :: UX)"
    by simp
  have d: "read_pte sv39 root_mem (mpa_to_uva root_mem 0x80000000) =
             \<lparr>pte_flags = 7, pte_ppn = 1\<rparr>"
    by (simp add: root_uva root_pte)
  have e: "load U8 root_mmu root_proc 0x1000 0 =
             (root_proc\<lparr>badaddr := 0x1000\<rparr>, root_mmu, 0, Longjmp riscv_cause_fault_load)"
    by (simp add: load_cases misaligned_def root_translate illegal_def)
  from a b c d e show ?thesis
    by (simp only: root_uva root_walk simp_thms)
qed

section \<open>Which program headers are mapped\<close>

text \<open>
  Claim C5 (exactly the program headers of type \<^verbatim>\<open>PT_LOAD\<close> or \<^verbatim>\<open>PT_DYNAMIC\<close> are mapped)
  fails: the loop tests \<^verbatim>\<open>p_flags\<close>, not \<^verbatim>\<open>p_type\<close>, against \<^verbatim>\<open>PT_LOAD | PT_DYNAMIC\<close>, which
  is the flag mask \<^verbatim>\<open>PF_X | PF_W\<close>. A read-only \<^verbatim>\<open>PT_LOAD\<close> segment is not passed to
  \<^verbatim>\<open>map_load_segment_user\<close>, and a \<^verbatim>\<open>PT_GNU_STACK\<close> header with flags read and write is.
\<close>

theorem start_proxy_skips_readonly_load:
  "p_type rodata_phdr = PT_LOAD \<and>
   start_proxy_mapped [rodata_phdr] = [] \<and>
   p_type gnu_stack_phdr \<noteq> PT_LOAD \<and>
   p_type gnu_stack_phdr \<noteq> PT_DYNAMIC \<and>
   start_proxy_mapped [rodata_phdr, gnu_stack_phdr] = [gnu_stack_phdr]"
  by (simp add: rodata_phdr_def gnu_stack_phdr_def PT_LOAD_def PT_DYNAMIC_def PT_GNU_STACK_def
      PF_R_def PF_W_def)

section \<open>When the walk fails\<close>

lemma pointer_pte_mpa:
  "walk_pte_mpa sv39 0x2000 (Suc (Suc 0)) 0 = 0"
  "walk_pte_mpa sv39 0x2000 (Suc 0) 0 = 0"
  "walk_pte_mpa sv39 0x2000 0 0 = 16"
  by (simp_all add: walk_pte_mpa_def walk_vpn_def walk_shift_def sv39_def page_shift_def)

lemma pointer_uva:
  "mpa_to_uva pointer_mem (walk_pte_mpa sv39 0x2000 (Suc (Suc 0)) 0) = 0x10000"
  "mpa_to_uva pointer_mem (walk_pte_mpa sv39 0x2000 (Suc 0) 0) = 0x10000"
  "mpa_to_uva pointer_mem (walk_pte_mpa sv39 0x2000 0 0) = 0x10010"
  by (simp_all add: pointer_pte_mpa mpa_to_uva_def pointer_mem_def)

lemma pointer_ptes:
  "read_pte sv39 pointer_mem 0x10000 = \<lparr>pte_flags = 1, pte_ppn = 0\<rparr>"
  "read_pte sv39 pointer_mem 0x10010 = \<lparr>pte_flags = 1, pte_ppn = 0\<rparr>"
  by (simp_all add: read_pte_def sv39_def pointer_mem_def host_read_8)

lemma pointer_bits:
  "bit (1 :: 64 word) pte_shift_V" "\<not> bit (1 :: 64 word) pte_shift_R"
  "\<not> bit (1 :: 64 word) pte_shift_W" "\<not> bit (1 :: 64 word) pte_shift_X"
  by (simp_all add: pte_shift_V_def pte_shift_R_def pte_shift_W_def pte_shift_X_def bit_1_iff)

lemma legal_uva: "(0x10000 :: addr_t) \<noteq> illegal_address" "(0x10010 :: addr_t) \<noteq> illegal_address"
  by (simp_all add: illegal_address_def)

lemma pointer_level_0:
  "walk_levels sv39 pointer_mem 0x2000 (Suc 0) 0 = (illegal_address, zero_pte)"
  by (simp only: walk_step [OF pointer_uva(3) legal_uva(2) pointer_ptes(2)])
    (simp add: pointer_bits)

lemma pointer_level_1:
  "walk_levels sv39 pointer_mem 0x2000 (Suc (Suc 0)) 0 = (illegal_address, zero_pte)"
  by (simp only: walk_step [OF pointer_uva(2) legal_uva(1) pointer_ptes(1)])
    (simp add: pointer_bits pointer_level_0 del: walk_levels.simps(2))

lemma pointer_level_2:
  "walk_levels sv39 pointer_mem 0x2000 (Suc (Suc (Suc 0))) 0 = (illegal_address, zero_pte)"
  by (simp only: walk_step [OF pointer_uva(1) legal_uva(1) pointer_ptes(1)])
    (simp add: pointer_bits pointer_level_1 del: walk_levels.simps(2))

lemma pointer_walk:
  "walk_page_table sv39 megapage_proc pointer_mem empty_tlb 0x2000 = (illegal_address, zero_pte)"
proof -
  have "ptm_levels sv39 = 3"
    by (simp add: sv39_def)
  then show ?thesis
    by (simp add: walk_page_table_def megapage_proc_fields walk_levels_3 pointer_level_2
        del: walk_levels.simps(2))
qed

lemma pointer_translate:
  "translate_addr False pointer_mmu megapage_proc 0x2000 = (illegal_address, None, pointer_mmu)"
proof -
  have "page_translate_addr sv39 megapage_proc pointer_mem empty_tlb 0x2000 =
          (illegal_address, None, empty_tlb)"
    by (simp add: page_translate_addr_def lookup_def empty_tlb_fields
        page_translate_addr_tlb_miss_def pointer_walk)
  moreover have "l1_dtlb pointer_mmu = empty_tlb" "mem pointer_mmu = pointer_mem"
    by (simp_all add: pointer_mmu_def)
  ultimately show ?thesis
    by (simp add: translate_addr_def translate_paged_def megapage_proc_fields)
qed

text \<open>
  Claim C9 (a fetched PTE makes the walk fail exactly when V = 0, or R = 0 and W = 1) does
  not hold: in scenario S5 the PTE fetched at level 0 for virtual address 0x2000 has V set
  and R, W and X clear; it passes both fault tests and is not a leaf, the loop ends, and
  the walk fails. The load through that address raises \<open>fault_load\<close>.
\<close>

theorem valid_pointer_at_level_0_fails:
  "read_pte sv39 pointer_mem (mpa_to_uva pointer_mem (walk_pte_mpa sv39 0x2000 0 0)) =
     \<lparr>pte_flags = 1, pte_ppn = 0\<rparr> \<and>
   bit (1 :: 64 word) pte_shift_V \<and>
   \<not> bit (1 :: 64 word) pte_shift_W \<and>
   fst (walk_levels sv39 pointer_mem 0x2000 (Suc 0) 0) = illegal_address \<and>
   fst (walk_page_table sv39 megapage_proc pointer_mem empty_tlb 0x2000) = illegal_address \<and>
   \<not> (fst (walk_page_table sv39 megapage_proc pointer_mem empty_tlb 0x2000) = illegal_address \<longleftrightarrow>
        \<not> bit (1 :: 64 word) pte_shift_V \<or>
        (\<not> bit (1 :: 64 word) pte_shift_R \<and> bit (1 :: 64 word) pte_shift_W)) \<and>
   load U8 pointer_mmu megapage_proc 0x2000 0 =
     (megapage_proc\<lparr>badaddr := 0x2000\<rparr>, pointer_mmu, 0, Longjmp riscv_cause_fault_load)"
  by (simp add: pointer_uva pointer_ptes pointer_bits pointer_level_0 pointer_walk
      load_cases misaligned_def pointer_translate illegal_def del: walk_levels.simps(2))

lemma flag_bits_0xA:
  "\<not> bit (0xA :: 64 word) pte_shift_V"
  by (simp add: pte_shift_V_def)

lemma flag_bits_0xB:
  "bit (0xB :: 64 word) pte_shift_V" "bit (0xB :: 64 word) pte_shift_R"
  by (simp_all add: pte_shift_V_def pte_shift_R_def bit_numeral_word_iff)

text \<open>
  Claim C9, amended. A fetched PTE with V = 0, or with R = 0 and W = 1, ends the walk with
  a failure at once: the two fault tests come before the leaf test, so the PTE fails even
  when R or X is set. A PTE that passes both tests and has R = 0 and X = 0 hands the walk
  on to the next level, and at level 0 that is the failing exit through the bottom of the
  loop. Under sv39 and sv48 the walk from a fetched PTE therefore fails exactly when
  V = 0, or R = 0 and W = 1, or R = 0 and X = 0 and the walk fails from the next level on
  (which it always does from level 0); the same holds for \<open>walk_page_table\<close> and the PTE
  fetched from the root table.
\<close>

theorem walk_fails_exactly:
  assumes u: "mpa_to_uva m (walk_pte_mpa pt va level pn) = pte_uva"
    and l: "pte_uva \<noteq> illegal_address"
    and r: "read_pte pt m pte_uva = pte"
    and f: "pte_flags pte = fl"
  shows
    "(\<not> bit fl pte_shift_V \<or> (\<not> bit fl pte_shift_R \<and> bit fl pte_shift_W) \<longrightarrow>
        walk_levels pt m va (Suc level) pn = (illegal_address, pte)) \<and>
     (bit fl pte_shift_V \<and> \<not> bit fl pte_shift_R \<and> \<not> bit fl pte_shift_W \<and>
      \<not> bit fl pte_shift_X \<longrightarrow>
        walk_levels pt m va (Suc level) pn = walk_levels pt m va level (pte_ppn pte) \<and>
        (level = 0 \<longrightarrow> walk_levels pt m va (Suc level) pn = (illegal_address, zero_pte))) \<and>
     ((pt = sv39 \<or> pt = sv48) \<and> level < ptm_levels pt \<longrightarrow>
        (fst (walk_levels pt m va (Suc level) pn) = illegal_address \<longleftrightarrow>
           \<not> bit fl pte_shift_V \<or> (\<not> bit fl pte_shift_R \<and> bit fl pte_shift_W) \<or>
           (\<not> bit fl pte_shift_R \<and> \<not> bit fl pte_shift_X \<and>
            fst (walk_levels pt m va level (pte_ppn pte)) = illegal_address))) \<and>
     ((pt = sv39 \<or> pt = sv48) \<and> level = 0 \<longrightarrow>
        (fst (walk_levels pt m va (Suc level) pn) = illegal_address \<longleftrightarrow>
           \<not> bit fl pte_shift_V \<or> (\<not> bit fl pte_shift_R \<and> bit fl pte_shift_W) \<or>
           (\<not> bit fl pte_shift_R \<and> \<not> bit fl pte_shift_X))) \<and>
     ((pt = sv39 \<or> pt = sv48) \<and> Suc level = ptm_levels pt \<and>
      pn = sptbr p AND (push_bit (ppn_bits tlb) 1 - 1) \<longrightarrow>
        (fst (walk_page_table pt p m tlb va) = illegal_address \<longleftrightarrow>
           \<not> bit fl pte_shift_V \<or> (\<not> bit fl pte_shift_R \<and> bit fl pte_shift_W) \<or>
           (\<not> bit fl pte_shift_R \<and> \<not> bit fl pte_shift_X \<and>
            fst (walk_levels pt m va level (pte_ppn pte)) = illegal_address)))"
proof -
  note step = walk_step [OF u l r, unfolded f]
  have legal: "push_bit page_shift (pte_ppn pte) +
                 (va AND (push_bit (walk_shift pt level) 1 - 1)) \<noteq> illegal_address"
    if "pt = sv39 \<or> pt = sv48" and "level < ptm_levels pt"
    using leaf_address_legal [OF that, of m pte_uva va] by (simp add: r)
  have levels: "0 < ptm_levels pt" if "pt = sv39 \<or> pt = sv48"
    using that by (auto simp: sv39_def sv48_def)
  have a: "\<not> bit fl pte_shift_V \<or> (\<not> bit fl pte_shift_R \<and> bit fl pte_shift_W) \<longrightarrow>
        walk_levels pt m va (Suc level) pn = (illegal_address, pte)"
    by (simp add: step del: walk_levels.simps(2))
  have b1: "walk_levels pt m va (Suc level) pn = walk_levels pt m va level (pte_ppn pte)"
    if "bit fl pte_shift_V \<and> \<not> bit fl pte_shift_R \<and> \<not> bit fl pte_shift_W \<and>
        \<not> bit fl pte_shift_X"
    using that by (simp add: step del: walk_levels.simps(2))
  have b: "bit fl pte_shift_V \<and> \<not> bit fl pte_shift_R \<and> \<not> bit fl pte_shift_W \<and>
      \<not> bit fl pte_shift_X \<longrightarrow>
        walk_levels pt m va (Suc level) pn = walk_levels pt m va level (pte_ppn pte) \<and>
        (level = 0 \<longrightarrow> walk_levels pt m va (Suc level) pn = (illegal_address, zero_pte))"
    using b1 by (auto simp del: walk_levels.simps(2))
  have c: "fst (walk_levels pt m va (Suc level) pn) = illegal_address \<longleftrightarrow>
           \<not> bit fl pte_shift_V \<or> (\<not> bit fl pte_shift_R \<and> bit fl pte_shift_W) \<or>
           (\<not> bit fl pte_shift_R \<and> \<not> bit fl pte_shift_X \<and>
            fst (walk_levels pt m va level (pte_ppn pte)) = illegal_address)"
    if "pt = sv39 \<or> pt = sv48" and "level < ptm_levels pt"
    using legal [OF that] by (auto simp: step simp del: walk_levels.simps(2))
  have d: "fst (walk_levels pt m va (Suc level) pn) = illegal_address \<longleftrightarrow>
           \<not> bit fl pte_shift_V \<or> (\<not> bit fl pte_shift_R \<and> bit fl pte_shift_W) \<or>
           (\<not> bit fl pte_shift_R \<and> \<not> bit fl pte_shift_X)"
    if "pt = sv39 \<or> pt = sv48" and "level = 0"
    using c [OF that(1)] levels [OF that(1)] that(2) by (simp del: walk_levels.simps(2))
  have e: "fst (walk_page_table pt p m tlb va) = illegal_address \<longleftrightarrow>
           \<not> bit fl pte_shift_V \<or> (\<not> bit fl pte_shift_R \<and> bit fl pte_shift_W) \<or>
           (\<not> bit fl pte_shift_R \<and> \<not> bit fl pte_shift_X \<and>
            fst (walk_levels pt m va level (pte_ppn pte)) = illegal_address)"
    if "pt = sv39 \<or> pt = sv48" and "Suc level = ptm_levels pt"
      and "pn = sptbr p AND (push_bit (ppn_bits tlb) 1 - 1)"
  proof -
    have "level < ptm_levels pt"
      using that(2) by simp
    from c [OF that(1) this] show ?thesis
      unfolding walk_page_table_def that(2) [symmetric] that(3) [symmetric] .
  qed
  from a b c d e show ?thesis
    by blast
qed


theorem walk_fails_exactly_witness:
  "fst (walk_levels sv39 invalid_leaf_mem 0 (Suc 0) 0) = illegal_address \<and>
   fst (walk_levels sv39 pointer_mem 0x2000 (Suc 0) 0) = illegal_address \<and>
   fst (walk_page_table sv39 megapage_proc pointer_mem empty_tlb 0x2000) = illegal_address \<and>
   fst (walk_levels sv39 megapage_mem 0x40001000 (Suc (Suc 0)) 0) \<noteq> illegal_address"
proof -
  have fA: "pte_flags \<lparr>pte_flags = 0xA, pte_ppn = 0\<rparr> = 0xA"
    and f1: "pte_flags \<lparr>pte_flags = 1, pte_ppn = 0\<rparr> = 1"
    and fB: "pte_flags \<lparr>pte_flags = 0xB, pte_ppn = 0x100000\<rparr> = 0xB"
    by simp_all
  have mu: "mpa_to_uva megapage_mem (walk_pte_mpa sv39 0x40001000 (Suc 0) 0) = 0x10000"
    by (simp add: megapage_pte_mpa megapage_uva)
  have root: "(0 :: UX) = sptbr megapage_proc AND (push_bit (ppn_bits empty_tlb) 1 - 1)"
    by (simp add: megapage_proc_fields)
  have lv: "Suc (Suc (Suc 0)) = ptm_levels sv39" "Suc 0 < ptm_levels sv39"
    by (simp_all add: sv39_def)
  note w1 = walk_fails_exactly [OF invalid_leaf_pte(1) legal_uva(1) invalid_leaf_pte(2) fA]
  note w2 = walk_fails_exactly [OF pointer_uva(3) legal_uva(2) pointer_ptes(2) f1]
  note w3 = walk_fails_exactly [OF pointer_uva(1) legal_uva(1) pointer_ptes(1) f1,
      where p = megapage_proc and tlb = empty_tlb]
  note w4 = walk_fails_exactly [OF mu legal_uva(1) megapage_ptes(2) fB]
  have a: "fst (walk_levels sv39 invalid_leaf_mem 0 (Suc 0) 0) = illegal_address"
    using w1 flag_bits_0xA by (simp del: walk_levels.simps(2))
  have b: "fst (walk_levels sv39 pointer_mem 0x2000 (Suc 0) 0) = illegal_address"
    using w2 pointer_bits by (simp del: walk_levels.simps(2))
  have c: "fst (walk_page_table sv39 megapage_proc pointer_mem empty_tlb 0x2000) =
             illegal_address"
    using w3 pointer_bits root lv by (simp add: pointer_level_1 del: walk_levels.simps(2))
  have d: "fst (walk_levels sv39 megapage_mem 0x40001000 (Suc (Suc 0)) 0) \<noteq> illegal_address"
    using w4 flag_bits_0xB lv by (simp del: walk_levels.simps(2))
  from a b c d show ?thesis
    by simp
qed

end
